theory Spec2Isabelle
  imports Main "HOL-Library.Word"
begin

section \<open>JavaScript strings\<close>

text \<open>
  A JavaScript string is a sequence of UTF-16 code units; \<open>slice\<close>, \<open>trim\<close>,
  \<open>includes\<close> and a regular expression without the \<open>u\<close> flag all work on code units.
  \<open>js\<close> turns an ASCII literal into such a string.
\<close>

type_synonym jschar = "16 word"
type_synonym jsstring = "jschar list"

definition js :: "string \<Rightarrow> jsstring" where
  "js s = map of_char s"

text \<open>
  The class \<open>\s\<close> of a regular expression, which is also what \<open>String.prototype.trim\<close>
  removes: WhiteSpace and LineTerminator of ECMAScript.
\<close>

definition is_space :: "jschar \<Rightarrow> bool" where
  "is_space c \<longleftrightarrow>
     c = 0x09 \<or> c = 0x0A \<or> c = 0x0B \<or> c = 0x0C \<or> c = 0x0D \<or> c = 0x20 \<or>
     c = 0xA0 \<or> c = 0x1680 \<or> (0x2000 \<le> c \<and> c \<le> 0x200A) \<or>
     c = 0x2028 \<or> c = 0x2029 \<or> c = 0x202F \<or> c = 0x205F \<or> c = 0x3000 \<or> c = 0xFEFF"

definition trim :: "jsstring \<Rightarrow> jsstring" where
  "trim s = rev (dropWhile is_space (rev (dropWhile is_space s)))"

text \<open>\<open>s.startsWith(p)\<close> and \<open>s.includes(p)\<close> (\<open>includes\<close> is a keyword of Isabelle,
  hence the suffix); a regular expression that is a literal text, tested with
  \<open>.test(s)\<close>, is \<open>includes_js\<close> too.\<close>

fun startsWith :: "jsstring \<Rightarrow> jsstring \<Rightarrow> bool" where
  "startsWith s [] = True"
| "startsWith [] (p # ps) = False"
| "startsWith (c # cs) (p # ps) = (c = p \<and> startsWith cs ps)"

fun includes_js :: "jsstring \<Rightarrow> jsstring \<Rightarrow> bool" where
  "includes_js [] p = (p = [])"
| "includes_js (c # cs) p = (startsWith (c # cs) p \<or> includes_js cs p)"

section \<open>The service: POST /api/summarize\<close>

subsection \<open>Text extraction\<close>

text \<open>
  \<open>html.replace(/<[^>]*>?/gm, ' ')\<close>: at a \<open><\<close> the pattern takes every following code
  unit that is not \<open>>\<close> (greedily, line breaks included), then one \<open>>\<close> if there is one;
  the match is replaced by one space and the scan goes on after it.
\<close>

definition after_tag :: "jsstring \<Rightarrow> jsstring" where
  "after_tag cs = (case dropWhile (\<lambda>c. c \<noteq> 0x3E) cs of [] \<Rightarrow> [] | _ # rest \<Rightarrow> rest)"

function strip_tags :: "jsstring \<Rightarrow> jsstring" where
  "strip_tags [] = []"
| "strip_tags (c # cs) =
     (if c = 0x3C then 0x20 # strip_tags (after_tag cs) else c # strip_tags cs)"
  by pat_completeness auto
termination
proof (relation "measure length")
  show "wf (measure length)" by simp
next
  fix c :: jschar and cs :: jsstring
  have "length (after_tag cs) \<le> length (dropWhile (\<lambda>c. c \<noteq> 0x3E) cs)"
    by (simp add: after_tag_def split: list.split)
  also have "\<dots> \<le> length cs"
    by (rule length_dropWhile_le)
  finally have "length (after_tag cs) \<le> length cs" .
  then show "(after_tag cs, c # cs) \<in> measure length" by simp
next
  fix c :: jschar and cs :: jsstring
  show "(cs, c # cs) \<in> measure length" by simp
qed

text \<open>\<open>.replace(/\s+/g, ' ')\<close>: every maximal run of whitespace becomes one space.\<close>

function collapse_ws :: "jsstring \<Rightarrow> jsstring" where
  "collapse_ws [] = []"
| "collapse_ws (c # cs) =
     (if is_space c then 0x20 # collapse_ws (dropWhile is_space cs) else c # collapse_ws cs)"
  by pat_completeness auto
termination
proof (relation "measure length")
  show "wf (measure length)" by simp
next
  fix c :: jschar and cs :: jsstring
  have "length (dropWhile is_space cs) \<le> length cs"
    by (rule length_dropWhile_le)
  then show "(dropWhile is_space cs, c # cs) \<in> measure length" by simp
next
  fix c :: jschar and cs :: jsstring
  show "(cs, c # cs) \<in> measure length" by simp
qed

definition textContent :: "jsstring \<Rightarrow> jsstring" where
  "textContent html = trim (collapse_ws (strip_tags html))"

subsection \<open>The handler\<close>

text \<open>
  A response of the handler: the status and the fields of the JSON body, in order.
  \<open>NextResponse.json(obj)\<close> has status 200 unless another one is given.
\<close>

record response =
  status :: nat
  body :: "(string \<times> jsstring) list"

definition promptSummary :: "jsstring \<Rightarrow> jsstring" where
  "promptSummary textContent' =
     js ''Summarize this blog in 5 clear sentences:'' @ [0x0A, 0x0A] @ take 12000 textContent'"

definition promptTranslate :: "jsstring \<Rightarrow> jsstring" where
  "promptTranslate summary =
     js ''Translate the following summary into formal Urdu:'' @ [0x0A, 0x0A] @ summary"

definition error_response :: response where
  "error_response =
     \<lparr>status = 500,
      body = [(''error'', js ''An error occurred while processing your request.'')]\<rparr>"

text \<open>
  The handler's collaborators are parameters: \<open>req\<close> is what \<open>await req.json()\<close> gives
  (the \<open>url\<close> of the body, or the exception), \<open>fetch\<close> is the page fetch followed by
  \<open>response.text()\<close>, \<open>generateContent\<close> is the completion call followed by
  \<open>response.text()\<close>. Each gives \<open>Inl\<close> of the exception where the source throws; the
  single \<open>catch\<close> turns every one of them into the same response.
\<close>

definition POST ::
  "('x + jsstring) \<Rightarrow> (jsstring \<Rightarrow> 'x + jsstring) \<Rightarrow> (jsstring \<Rightarrow> 'x + jsstring) \<Rightarrow> response"
where
  "POST req fetch generateContent =
     (case req of
        Inl _ \<Rightarrow> error_response
      | Inr url \<Rightarrow>
          (case fetch url of
             Inl _ \<Rightarrow> error_response
           | Inr html \<Rightarrow>
               (case generateContent (promptSummary (textContent html)) of
                  Inl _ \<Rightarrow> error_response
                | Inr summary \<Rightarrow>
                    (case generateContent (promptTranslate summary) of
                       Inl _ \<Rightarrow> error_response
                     | Inr urduTranslation \<Rightarrow>
                         \<lparr>status = 200,
                          body = [(''summary'', summary),
                                  (''urduTranslation'', urduTranslation)]\<rparr>))))"

section \<open>The client\<close>

subsection \<open>Structured errors\<close>

datatype error_type =
  NETWORK | VALIDATION | SERVER | TIMEOUT | RATE_LIMIT | INVALID_URL | CONTENT_NOT_FOUND | UNKNOWN

text \<open>The table \<open>ERROR_TYPES\<close>: the string each type is at run time.\<close>

fun ERROR_TYPES :: "error_type \<Rightarrow> jsstring" where
  "ERROR_TYPES NETWORK = js ''network''"
| "ERROR_TYPES VALIDATION = js ''validation''"
| "ERROR_TYPES SERVER = js ''server''"
| "ERROR_TYPES TIMEOUT = js ''timeout''"
| "ERROR_TYPES RATE_LIMIT = js ''rate_limit''"
| "ERROR_TYPES INVALID_URL = js ''invalid_url''"
| "ERROR_TYPES CONTENT_NOT_FOUND = js ''content_not_found''"
| "ERROR_TYPES UNKNOWN = js ''unknown''"

text \<open>
  The body of a response of \<open>/api/summarize\<close> as the client reads it: a JSON object, each
  field of which may be absent (\<open>undefined\<close> in the source, \<open>None\<close> here). The service
  always sends an object; a body that is the JSON \<open>null\<close> is outside this type.
\<close>

record summary_result =
  title :: "jsstring option"
  englishSummary :: "jsstring option"
  urduSummary :: "jsstring option"
  readingTime :: "jsstring option"
  wordCount :: "jsstring option"
  keyPoints :: "jsstring list option"

record api_data =
  data_error :: "jsstring option"
  data_retryAfter :: "nat option"
  data_summary :: "summary_result option"

datatype detail = DNumber nat | DString jsstring | DUndefined | DData api_data

record structured_error =
  err_type :: error_type
  message :: jsstring
  details :: "(string \<times> detail) list option"
  recoverable :: bool
  timestamp :: jsstring

text \<open>\<open>createError\<close>; \<open>now\<close> is \<open>new Date().toISOString()\<close> at the call.\<close>

definition createError ::
  "jsstring \<Rightarrow> error_type \<Rightarrow> jsstring \<Rightarrow> (string \<times> detail) list option \<Rightarrow> bool \<Rightarrow> structured_error"
where
  "createError now type' message' details' recoverable' =
     \<lparr>err_type = type', message = message', details = details',
      recoverable = recoverable', timestamp = now\<rparr>"

text \<open>A thrown \<open>Error\<close> or \<open>DOMException\<close>: its \<open>name\<close> and its \<open>message\<close>.\<close>

datatype exn = Exn (exn_name: jsstring) (exn_message: jsstring)

text \<open>What a \<open>catch\<close> of the client can receive: an exception of the platform, or a
  structured error thrown by the client itself.\<close>

datatype failure = Exception exn | Structured structured_error

text \<open>Truthiness of a string that may be absent, and \<open>a || b\<close> on it.\<close>

definition truthy :: "jsstring option \<Rightarrow> bool" where
  "truthy a = (case a of None \<Rightarrow> False | Some s \<Rightarrow> s \<noteq> [])"

definition or_else :: "jsstring option \<Rightarrow> jsstring \<Rightarrow> jsstring" where
  "or_else a b = (case a of None \<Rightarrow> b | Some s \<Rightarrow> if s \<noteq> [] then s else b)"

text \<open>A status in a template literal: the decimal digits of the number.\<close>

fun toString :: "nat \<Rightarrow> jsstring" where
  "toString n = (if n < 10 then [0x30 + of_nat n] else toString (n div 10) @ [0x30 + of_nat (n mod 10)])"

subsection \<open>URL validation\<close>

text \<open>
  The ten regular expressions of \<open>blogPatterns\<close> are literal texts (their only escapes are
  \<open>\.\<close> and \<open>\/\<close>), each tested against the whole candidate string.
\<close>

definition blogPatterns :: "jsstring list" where
  "blogPatterns =
     [js ''medium.com'', js ''wordpress.com'', js ''blogspot.com'', js ''substack.com'',
      js ''dev.to'', js ''hashnode.com'', js ''.blog'', js ''/blog/'', js ''/post/'',
      js ''/article/'']"

definition isLikelyBlog :: "jsstring \<Rightarrow> bool" where
  "isLikelyBlog u = list_ex (\<lambda>pattern. includes_js u pattern) blogPatterns"

text \<open>
  \<open>validateUrl\<close>. The URL parser of the platform is the parameter \<open>urlParse\<close>:
  \<open>new URL(u)\<close> throws (\<open>Inl\<close> of the exception's message) or gives an object, of which only
  \<open>protocol\<close> is read (\<open>Inr\<close>). \<open>None\<close> is the source's \<open>null\<close>: no error.
\<close>

definition validateUrl ::
  "jsstring \<Rightarrow> (jsstring \<Rightarrow> jsstring + jsstring) \<Rightarrow> jsstring \<Rightarrow> structured_error option"
where
  "validateUrl now urlParse u =
     (if trim u = [] then
        Some (createError now VALIDATION (js ''Please enter a URL'') None True)
      else
        (case urlParse u of
           Inl errMessage \<Rightarrow>
             Some (createError now INVALID_URL (js ''Invalid URL format. Please check your URL.'')
                     (Some [(''originalError'', DString errMessage)]) True)
         | Inr protocol \<Rightarrow>
             if protocol \<notin> set [js ''http:'', js ''https:''] then
               Some (createError now INVALID_URL (js ''URL must use HTTP or HTTPS protocol'')
                       None True)
             else if \<not> isLikelyBlog u then
               Some (createError now VALIDATION
                       (js ''This doesn'' @ [0x27] @
                        js ''t appear to be a blog URL. Please verify the link.'')
                       (Some [(''url'', DString u)]) True)
             else None))"

subsection \<open>Errors of the API\<close>

text \<open>A response of \<open>fetch\<close>: its status, and what \<open>response.json()\<close> gives (the parsed
  object, or its rejection). \<open>response.ok\<close> is a status from 200 to 299.\<close>

record api_response =
  resp_status :: nat
  resp_json :: "exn + api_data"

definition ok :: "api_response \<Rightarrow> bool" where
  "ok response \<longleftrightarrow> 200 \<le> resp_status response \<and> resp_status response \<le> 299"

definition handleApiError :: "jsstring \<Rightarrow> api_response \<Rightarrow> api_data \<Rightarrow> structured_error" where
  "handleApiError now response data =
     (let status' = resp_status response in
      if status' = 400 then
        createError now VALIDATION
          (or_else (data_error data) (js ''Invalid request. Please check your URL.''))
          (Some [(''status'', DNumber status')]) True
      else if status' = 404 then
        createError now CONTENT_NOT_FOUND
          (js ''Blog post not found or unable to access content.'')
          (Some [(''status'', DNumber status')]) True
      else if status' = 429 then
        createError now RATE_LIMIT
          (js ''Too many requests. Please wait a moment and try again.'')
          (Some [(''status'', DNumber status'),
                 (''retryAfter'',
                    (case data_retryAfter data of None \<Rightarrow> DUndefined | Some n \<Rightarrow> DNumber n))])
          True
      else if status' = 500 then
        createError now SERVER (js ''Server error. Please try again later.'')
          (Some [(''status'', DNumber status')]) True
      else if status' = 503 then
        createError now SERVER
          (js ''Service temporarily unavailable. Please try again later.'')
          (Some [(''status'', DNumber status')]) True
      else
        createError now UNKNOWN
          (or_else (data_error data) (js ''Unexpected error ('' @ toString status' @ js '')''))
          (Some [(''status'', DNumber status')]) True)"

subsection \<open>Retry with exponential backoff\<close>

text \<open>
  \<open>fn\<close> is a call with effects that returns a promise, as the \<open>async\<close> function
  \<open>apiCall\<close> does, and each of its promises settles: it takes the state of the world and
  gives the outcome of this invocation (\<open>Inl\<close> a rejection, \<open>Inr\<close> a result) with the
  state after it. What the world does while a timer runs is part of the next invocation.
  \<open>attempt\<close> is the inner function of \<open>retryWithBackoff\<close>; its result is the list of the
  delays handed to \<open>setTimeout\<close>, in order, what the promise settles with (\<open>Inl\<close>
  rejected, \<open>Inr\<close> resolved), and the last state. The source is called with
  \<open>maxRetries = 3\<close> and \<open>delay = 1000\<close>, where \<open>delay * Math.pow(2, retryCount)\<close> is exact.
\<close>

function attempt ::
  "('w \<Rightarrow> ('e + 'a) \<times> 'w) \<Rightarrow> nat \<Rightarrow> nat \<Rightarrow> nat \<Rightarrow> 'w \<Rightarrow> nat list \<times> ('e + 'a) \<times> 'w"
where
  "attempt fn maxRetries delay retryCount' w =
     (case fn w of
        (Inr result, w') \<Rightarrow> ([], Inr result, w')
      | (Inl err, w') \<Rightarrow>
          if retryCount' \<ge> maxRetries then ([], Inl err, w')
          else
            (let nextDelay = delay * 2 ^ retryCount';
                 (delays, settled) = attempt fn maxRetries delay (retryCount' + 1) w'
             in (nextDelay # delays, settled)))"
  by pat_completeness auto
termination
  by (relation "measure (\<lambda>(fn, maxRetries, delay, retryCount', w). maxRetries - retryCount')") auto

declare attempt.simps [simp del]

definition retryWithBackoff ::
  "('w \<Rightarrow> ('e + 'a) \<times> 'w) \<Rightarrow> nat \<Rightarrow> nat \<Rightarrow> 'w \<Rightarrow> nat list \<times> ('e + 'a) \<times> 'w"
where
  "retryWithBackoff fn maxRetries delay w = attempt fn maxRetries delay 0 w"

subsection \<open>The state of the component and the summarize handler\<close>

text \<open>
  The cells of \<open>useState\<close>, apart from the particles of the background animation.
\<close>

record client_state =
  url :: jsstring
  loading :: bool
  error :: "structured_error option"
  summary :: "summary_result option"
  copied :: bool
  activeTab :: jsstring
  retryCount :: nat
  isOnline :: bool

text \<open>The state at mount; \<open>online\<close> is \<open>navigator.onLine\<close>.\<close>

definition initial_state :: "bool \<Rightarrow> client_state" where
  "initial_state online =
     \<lparr>url = [], loading = False, error = None, summary = None, copied = False,
      activeTab = js ''english'', retryCount = 0, isOnline = online\<rparr>"

text \<open>
  \<open>apiCall\<close>, the function handed to \<open>retryWithBackoff\<close>. \<open>fetch\<close> is the POST to
  \<open>/api/summarize\<close> with the body \<open>{ url: url.trim() }\<close> and the abort signal: it rejects
  (with an \<open>AbortError\<close> once the 30 second timer has fired) or gives a response.
  \<open>now\<close> reads the clock of the world.
\<close>

definition apiCall ::
  "('w \<Rightarrow> jsstring) \<Rightarrow> (jsstring \<Rightarrow> 'w \<Rightarrow> (exn + api_response) \<times> 'w) \<Rightarrow> jsstring \<Rightarrow>
   'w \<Rightarrow> (failure + api_data) \<times> 'w"
where
  "apiCall now fetch u w =
     (case fetch (trim u) w of
        (Inl ex, w') \<Rightarrow> (Inl (Exception ex), w')
      | (Inr response, w') \<Rightarrow>
          (case resp_json response of
             Inl ex \<Rightarrow> (Inl (Exception ex), w')
           | Inr data \<Rightarrow>
               if \<not> ok response then
                 (Inl (Structured (handleApiError (now w') response data)), w')
               else if (case data_summary data of
                          None \<Rightarrow> True
                        | Some sm \<Rightarrow> \<not> truthy (title sm) \<or> \<not> truthy (englishSummary sm)) then
                 (Inl (Structured
                         (createError (now w') SERVER
                            (js ''Invalid response from server. Please try again.'')
                            (Some [(''data'', DData data)]) True)), w')
               else (Inr data, w')))"

text \<open>
  The \<open>catch\<close> block of \<open>handleSummarize\<close>. An exception of the platform has a \<open>name\<close>
  and no \<open>type\<close>; a structured error has a \<open>type\<close> and no \<open>name\<close>, so for it the first test
  fails and the second asks whether its \<open>type\<close> string is truthy.
\<close>

fun handleSummarize_catch :: "jsstring \<Rightarrow> failure \<Rightarrow> structured_error" where
  "handleSummarize_catch now (Exception ex) =
     (if exn_name ex = js ''AbortError'' then
        createError now TIMEOUT
          (js ''Request timed out. The blog might be too large or the server is busy.'')
          None True
      else if exn_name ex = js ''TypeError'' \<and> includes_js (exn_message ex) (js ''fetch'') then
        createError now NETWORK
          (js ''Network error. Please check your connection and try again.'')
          (Some [(''originalError'', DString (exn_message ex))]) True
      else
        createError now UNKNOWN (js ''An unexpected error occurred. Please try again.'')
          (Some [(''originalError'', DString (exn_message ex))]) True)"
| "handleSummarize_catch now (Structured e) =
     (if ERROR_TYPES (err_type e) \<noteq> [] then e
      else
        createError now UNKNOWN (js ''An unexpected error occurred. Please try again.'')
          (Some [(''originalError'', DString (message e))]) True)"

text \<open>
  \<open>handleSummarize\<close>: the state of the component and of the world once the handler has
  finished. The two early returns leave \<open>loading\<close> as it was; after them the \<open>finally\<close>
  block always sets it to \<open>false\<close>.
\<close>

definition handleSummarize ::
  "('w \<Rightarrow> jsstring) \<Rightarrow> (jsstring \<Rightarrow> jsstring + jsstring) \<Rightarrow>
   (jsstring \<Rightarrow> 'w \<Rightarrow> (exn + api_response) \<times> 'w) \<Rightarrow> client_state \<Rightarrow> 'w \<Rightarrow> client_state \<times> 'w"
where
  "handleSummarize now urlParse fetch s w =
     (if \<not> isOnline s then
        (s\<lparr>error := Some (createError (now w) NETWORK
                 (js ''No internet connection. Please check your network and try again.'')
                 None True)\<rparr>, w)
      else
        (case validateUrl (now w) urlParse (url s) of
           Some validationError \<Rightarrow> (s\<lparr>error := Some validationError\<rparr>, w)
         | None \<Rightarrow>
             (let s1 = s\<lparr>loading := True, error := None, summary := None, retryCount := 0\<rparr>
              in case retryWithBackoff (apiCall now fetch (url s)) 3 1000 w of
                   (delays, Inr result, w') \<Rightarrow>
                     (s1\<lparr>summary := data_summary result, retryCount := 0, loading := False\<rparr>, w')
                 | (delays, Inl err, w') \<Rightarrow>
                     (s1\<lparr>error := Some (handleSummarize_catch (now w') err),
                         retryCount := retryCount s1 + 1, loading := False\<rparr>, w'))))"

text \<open>
  \<open>copyToClipboard\<close>: \<open>written\<close> is what \<open>navigator.clipboard.writeText\<close> settles with.
  (Two seconds after a success a timer sets \<open>copied\<close> back to \<open>false\<close>.)
\<close>

definition copyToClipboard :: "jsstring \<Rightarrow> exn + unit \<Rightarrow> client_state \<Rightarrow> client_state" where
  "copyToClipboard now written s =
     (case written of
        Inr _ \<Rightarrow> s\<lparr>copied := True\<rparr>
      | Inl ex \<Rightarrow>
          s\<lparr>error := Some (createError now UNKNOWN (js ''Failed to copy text to clipboard'')
                   (Some [(''originalError'', DString (exn_message ex))]) False)\<rparr>)"

definition resetForm :: "client_state \<Rightarrow> client_state" where
  "resetForm s =
     s\<lparr>url := [], summary := None, error := None, activeTab := js ''english'', retryCount := 0\<rparr>"

definition retryLastAction ::
  "('w \<Rightarrow> jsstring) \<Rightarrow> (jsstring \<Rightarrow> jsstring + jsstring) \<Rightarrow>
   (jsstring \<Rightarrow> 'w \<Rightarrow> (exn + api_response) \<times> 'w) \<Rightarrow> client_state \<Rightarrow> 'w \<Rightarrow> client_state \<times> 'w"
where
  "retryLastAction now urlParse fetch s w =
     (case error s of
        None \<Rightarrow> (s, w)
      | Some e \<Rightarrow> if recoverable e then handleSummarize now urlParse fetch s w else (s, w))"

section \<open>Sample collaborators\<close>

text \<open>Concrete instances of the parameters above, at which the theorems below are applied.\<close>

text \<open>A call that is rejected on its first two invocations and resolved from the third on;
  the state counts the invocations, and each outcome carries its index.\<close>

definition flaky :: "nat \<Rightarrow> (nat + nat) \<times> nat" where
  "flaky n = (if n < 2 then Inl n else Inr n, Suc n)"

text \<open>A call that is rejected on every invocation, with the index as the failure.\<close>

definition failing :: "nat \<Rightarrow> (nat + unit) \<times> nat" where
  "failing n = (Inl n, Suc n)"

text \<open>A stand-in for the URL parser that only splits the scheme off at the first colon.\<close>

definition scheme_of :: "jsstring \<Rightarrow> jsstring + jsstring" where
  "scheme_of u =
     (if 0x3A \<in> set u then Inr (takeWhile (\<lambda>c. c \<noteq> 0x3A) u @ [0x3A])
      else Inl (js ''Invalid URL''))"

text \<open>A service that answers every request with the given status and a \<open>retryAfter\<close> hint
  equal to the number of requests so far.\<close>

definition answering :: "nat \<Rightarrow> jsstring \<Rightarrow> nat \<Rightarrow> (exn + api_response) \<times> nat" where
  "answering code u n =
     (Inr \<lparr>resp_status = code,
           resp_json = Inr \<lparr>data_error = None, data_retryAfter = Some n, data_summary = None\<rparr>\<rparr>,
      Suc n)"

text \<open>A network on which every request fails at the transport layer.\<close>

definition unreachable :: "jsstring \<Rightarrow> nat \<Rightarrow> (exn + api_response) \<times> nat" where
  "unreachable u n = (Inl (Exn (js ''TypeError'') (js ''Failed to fetch'')), Suc n)"

section \<open>Properties of the text extraction\<close>

lemma after_tag_simps:
  "after_tag [] = []"
  "after_tag (c # cs) = (if c = 0x3E then cs else after_tag cs)"
  by (simp_all add: after_tag_def)


lemma strip_tags_plain: "0x3C \<notin> set s \<Longrightarrow> strip_tags s = s"
  by (induction s) auto

lemma after_tag_closed: "0x3E \<notin> set tag \<Longrightarrow> after_tag (tag @ 0x3E # rest) = rest"
  by (induction tag) (auto simp: after_tag_simps)

lemma strip_tags_append: "0x3C \<notin> set pre \<Longrightarrow> strip_tags (pre @ s) = pre @ strip_tags s"
  by (induction pre) auto

lemma strip_tags_tag:
  assumes "0x3C \<notin> set pre" and "0x3E \<notin> set tag"
  shows "strip_tags (pre @ 0x3C # tag @ 0x3E # rest) = pre @ 0x20 # strip_tags rest"
  using assms by (simp add: strip_tags_append after_tag_closed)












section \<open>Properties of the handler\<close>

text \<open>
  Claim C1. For a request \<open>{ url }\<close> whose page fetch and two completion calls succeed, the
  response has status 200 and its body is exactly \<open>{ summary, urduTranslation }\<close>: the
  summary is the completion of the five-sentence prompt over the first 12000 code units of
  the extracted text, the translation is the completion of the formal-Urdu prompt over that
  summary.
\<close>

theorem POST_success:
  assumes "fetch u = Inr html"
    and "generateContent (js ''Summarize this blog in 5 clear sentences:'' @ [0x0A, 0x0A] @
            take 12000 (textContent html)) = Inr s"
    and "generateContent (js ''Translate the following summary into formal Urdu:'' @ [0x0A, 0x0A] @ s)
           = Inr t"
  shows "POST (Inr u) fetch generateContent =
           \<lparr>status = 200, body = [(''summary'', s), (''urduTranslation'', t)]\<rparr>"
  using assms by (simp add: POST_def promptSummary_def promptTranslate_def)

theorem POST_success_witness:
  "POST (Inr (js ''https://a.blog/'') :: unit + jsstring)
        (\<lambda>u. Inr (js ''<p>Hello World</p>''))
        (\<lambda>p. Inr (take 9 p))
     = \<lparr>status = 200,
        body = [(''summary'', js ''Summarize''), (''urduTranslation'', js ''Translate'')]\<rparr>"
  using POST_success
    [where fetch = "\<lambda>u. Inr (js ''<p>Hello World</p>'') :: unit + jsstring"
       and u = "js ''https://a.blog/''" and html = "js ''<p>Hello World</p>''"
       and generateContent = "\<lambda>p. Inr (take 9 p)"
       and s = "js ''Summarize''" and t = "js ''Translate''"]
  by (simp add: js_def)

text \<open>
  Claim C2. When parsing the request, the fetch, the summary completion or the translation
  completion throws, the response has status 500 and its body is the one field \<open>error\<close>
  with the fixed message: no \<open>summary\<close> and no \<open>urduTranslation\<close>, also when the summary
  had been computed and only the translation failed.
\<close>

theorem POST_failure:
  assumes "(\<exists>e. req = Inl e)
         \<or> (\<exists>u e. req = Inr u \<and> fetch u = Inl e)
         \<or> (\<exists>u html e. req = Inr u \<and> fetch u = Inr html
                \<and> generateContent (promptSummary (textContent html)) = Inl e)
         \<or> (\<exists>u html s e. req = Inr u \<and> fetch u = Inr html
                \<and> generateContent (promptSummary (textContent html)) = Inr s
                \<and> generateContent (promptTranslate s) = Inl e)"
  shows "POST req fetch generateContent =
           \<lparr>status = 500,
            body = [(''error'', js ''An error occurred while processing your request.'')]\<rparr>
       \<and> map_of (body (POST req fetch generateContent)) ''error'' \<noteq> None
       \<and> map_of (body (POST req fetch generateContent)) ''summary'' = None
       \<and> map_of (body (POST req fetch generateContent)) ''urduTranslation'' = None"
proof -
  from assms have "POST req fetch generateContent = error_response"
    by (auto simp: POST_def)
  then show ?thesis by (simp add: error_response_def)
qed

theorem POST_failure_witness:
  "map_of (body (POST (Inr (js ''https://a.blog/'') :: unit + jsstring)
        (\<lambda>u. Inr (js ''<p>Hello World</p>''))
        (\<lambda>p. if startsWith p (js ''Summarize'') then Inr (js ''A summary.'') else Inl ()))) ''summary'' = None
   \<and> status (POST (Inr (js ''https://a.blog/'') :: unit + jsstring)
        (\<lambda>u. Inr (js ''<p>Hello World</p>''))
        (\<lambda>p. if startsWith p (js ''Summarize'') then Inr (js ''A summary.'') else Inl ())) = 500"
proof -
  let ?gen = "\<lambda>p. if startsWith p (js ''Summarize'') then Inr (js ''A summary.'') else Inl ()"
  have s: "?gen (promptSummary (textContent (js ''<p>Hello World</p>''))) = Inr (js ''A summary.'')"
    by (simp add: promptSummary_def js_def)
  have t: "?gen (promptTranslate (js ''A summary.'')) = Inl ()"
    by (simp add: promptTranslate_def js_def)
  have "\<exists>u html s e. (Inr (js ''https://a.blog/'') :: unit + jsstring) = Inr u
          \<and> (\<lambda>u. Inr (js ''<p>Hello World</p>'') :: unit + jsstring) u = Inr html
          \<and> ?gen (promptSummary (textContent html)) = Inr s
          \<and> ?gen (promptTranslate s) = Inl e"
    using s t by blast
  then show ?thesis
    using POST_failure [of "Inr (js ''https://a.blog/'')" "\<lambda>u. Inr (js ''<p>Hello World</p>'')" ?gen]
    by simp
qed

section \<open>Properties of the URL validator\<close>

lemma startsWith_iff: "startsWith s p \<longleftrightarrow> (\<exists>ys. s = p @ ys)"
  by (induction s p rule: startsWith.induct) auto

lemma includes_js_iff: "includes_js s p \<longleftrightarrow> (\<exists>xs ys. s = xs @ p @ ys)"
proof (induction s)
  case Nil
  show ?case by simp
next
  case (Cons c cs)
  show ?case
  proof
    assume "includes_js (c # cs) p"
    then consider "startsWith (c # cs) p" | "includes_js cs p" by auto
    then show "\<exists>xs ys. c # cs = xs @ p @ ys"
    proof cases
      case 1
      then obtain ys where "c # cs = p @ ys" by (auto simp: startsWith_iff)
      then have "c # cs = [] @ p @ ys" by simp
      then show ?thesis by blast
    next
      case 2
      with Cons obtain xs ys where "cs = xs @ p @ ys" by blast
      then have "c # cs = (c # xs) @ p @ ys" by simp
      then show ?thesis by blast
    qed
  next
    assume "\<exists>xs ys. c # cs = xs @ p @ ys"
    then obtain xs ys where eq: "c # cs = xs @ p @ ys" by blast
    show "includes_js (c # cs) p"
    proof (cases xs)
      case Nil
      with eq have "startsWith (c # cs) p" by (auto simp: startsWith_iff)
      then show ?thesis by simp
    next
      case (Cons x xs')
      with eq have "cs = xs' @ p @ ys" by simp
      then have "includes_js cs p" using Cons.IH by blast
      then show ?thesis by simp
    qed
  qed
qed

lemma isLikelyBlog_iff:
  "isLikelyBlog u \<longleftrightarrow> (\<exists>pattern \<in> set blogPatterns. \<exists>xs ys. u = xs @ pattern @ ys)"
  by (simp add: isLikelyBlog_def list_ex_iff includes_js_iff)

lemma not_blog_example: "\<not> isLikelyBlog (js ''https://example.com/'')"
  by (simp add: isLikelyBlog_def blogPatterns_def js_def)

lemma blog_medium: "isLikelyBlog (js ''https://medium.com/@x/y'')"
  by (simp add: isLikelyBlog_def blogPatterns_def js_def)

lemma trim_example: "trim (js ''https://example.com/'') \<noteq> []"
  by (simp add: trim_def js_def is_space_def)

lemma trim_medium: "trim (js ''https://medium.com/@x/y'') \<noteq> []"
  by (simp add: trim_def js_def is_space_def)

text \<open>
  Claim C4. The validator gives a \<open>validation\<close> error for a string that is empty after
  trimming; otherwise an \<open>invalid_url\<close> error when the string does not parse or parses
  with a protocol other than \<open>http:\<close> and \<open>https:\<close>; otherwise a \<open>validation\<close> error when
  none of the ten texts of \<open>blogPatterns\<close> occurs in it; otherwise no error. Where the
  parser reads \<open>https:\<close> off them, \<open>https://example.com/\<close> gets the \<open>validation\<close>
  warning and \<open>https://medium.com/@x/y\<close> gets no error.
\<close>

theorem validateUrl_classification:
  "(trim u = [] \<longrightarrow>
      map_option err_type (validateUrl now urlParse u) = Some VALIDATION)
 \<and> (trim u \<noteq> [] \<and> (\<exists>m. urlParse u = Inl m) \<longrightarrow>
      map_option err_type (validateUrl now urlParse u) = Some INVALID_URL)
 \<and> (trim u \<noteq> [] \<and> (\<exists>p. urlParse u = Inr p \<and> p \<noteq> js ''http:'' \<and> p \<noteq> js ''https:'') \<longrightarrow>
      map_option err_type (validateUrl now urlParse u) = Some INVALID_URL)
 \<and> (trim u \<noteq> [] \<and> (urlParse u = Inr (js ''http:'') \<or> urlParse u = Inr (js ''https:''))
      \<and> \<not> (\<exists>pattern \<in> set blogPatterns. \<exists>xs ys. u = xs @ pattern @ ys) \<longrightarrow>
      map_option err_type (validateUrl now urlParse u) = Some VALIDATION)
 \<and> (trim u \<noteq> [] \<and> (urlParse u = Inr (js ''http:'') \<or> urlParse u = Inr (js ''https:''))
      \<and> (\<exists>pattern \<in> set blogPatterns. \<exists>xs ys. u = xs @ pattern @ ys) \<longrightarrow>
      validateUrl now urlParse u = None)
 \<and> (urlParse (js ''https://example.com/'') = Inr (js ''https:'') \<longrightarrow>
      map_option err_type (validateUrl now urlParse (js ''https://example.com/'')) = Some VALIDATION)
 \<and> (urlParse (js ''https://medium.com/@x/y'') = Inr (js ''https:'') \<longrightarrow>
      validateUrl now urlParse (js ''https://medium.com/@x/y'') = None)"
proof (intro conjI impI)
  assume "trim u = []"
  then show "map_option err_type (validateUrl now urlParse u) = Some VALIDATION"
    by (simp add: validateUrl_def createError_def)
next
  assume "trim u \<noteq> [] \<and> (\<exists>m. urlParse u = Inl m)"
  then show "map_option err_type (validateUrl now urlParse u) = Some INVALID_URL"
    by (auto simp: validateUrl_def createError_def)
next
  assume "trim u \<noteq> [] \<and> (\<exists>p. urlParse u = Inr p \<and> p \<noteq> js ''http:'' \<and> p \<noteq> js ''https:'')"
  then show "map_option err_type (validateUrl now urlParse u) = Some INVALID_URL"
    by (auto simp: validateUrl_def createError_def)
next
  assume "trim u \<noteq> [] \<and> (urlParse u = Inr (js ''http:'') \<or> urlParse u = Inr (js ''https:''))
      \<and> \<not> (\<exists>pattern \<in> set blogPatterns. \<exists>xs ys. u = xs @ pattern @ ys)"
  then have "trim u \<noteq> []" and "urlParse u = Inr (js ''http:'') \<or> urlParse u = Inr (js ''https:'')"
    and "\<not> isLikelyBlog u"
    by (simp_all only: isLikelyBlog_iff not_False_eq_True)
  then show "map_option err_type (validateUrl now urlParse u) = Some VALIDATION"
    by (auto simp: validateUrl_def createError_def)
next
  assume "trim u \<noteq> [] \<and> (urlParse u = Inr (js ''http:'') \<or> urlParse u = Inr (js ''https:''))
      \<and> (\<exists>pattern \<in> set blogPatterns. \<exists>xs ys. u = xs @ pattern @ ys)"
  then have "trim u \<noteq> []" and "urlParse u = Inr (js ''http:'') \<or> urlParse u = Inr (js ''https:'')"
    and "isLikelyBlog u"
    by (simp_all only: isLikelyBlog_iff not_False_eq_True)
  then show "validateUrl now urlParse u = None"
    by (auto simp: validateUrl_def)
next
  assume "urlParse (js ''https://example.com/'') = Inr (js ''https:'')"
  then show "map_option err_type (validateUrl now urlParse (js ''https://example.com/'')) = Some VALIDATION"
    using trim_example not_blog_example by (simp add: validateUrl_def createError_def)
next
  assume "urlParse (js ''https://medium.com/@x/y'') = Inr (js ''https:'')"
  then show "validateUrl now urlParse (js ''https://medium.com/@x/y'') = None"
    using trim_medium blog_medium by (simp add: validateUrl_def)
qed

theorem validateUrl_classification_witness:
  "map_option err_type (validateUrl (js ''t0'') scheme_of (js ''  '')) = Some VALIDATION
 \<and> map_option err_type (validateUrl (js ''t0'') scheme_of (js ''not a url'')) = Some INVALID_URL
 \<and> map_option err_type (validateUrl (js ''t0'') scheme_of (js ''ftp://medium.com/a'')) = Some INVALID_URL
 \<and> map_option err_type (validateUrl (js ''t0'') scheme_of (js ''https://example.com/'')) = Some VALIDATION
 \<and> validateUrl (js ''t0'') scheme_of (js ''https://medium.com/@x/y'') = None
 \<and> validateUrl (js ''t0'') scheme_of (js ''http://example.com/blog/1'') = None"
proof -
  have 1: "trim (js ''  '') = []"
    by (simp add: trim_def js_def is_space_def)
  have 2: "trim (js ''not a url'') \<noteq> [] \<and> (\<exists>m. scheme_of (js ''not a url'') = Inl m)"
    by (simp add: trim_def js_def is_space_def scheme_of_def)
  have 3: "trim (js ''ftp://medium.com/a'') \<noteq> []
      \<and> (\<exists>p. scheme_of (js ''ftp://medium.com/a'') = Inr p \<and> p \<noteq> js ''http:'' \<and> p \<noteq> js ''https:'')"
    by (simp add: trim_def js_def is_space_def scheme_of_def)
  have 4: "scheme_of (js ''https://example.com/'') = Inr (js ''https:'')"
    by (simp add: js_def scheme_of_def)
  have 5: "scheme_of (js ''https://medium.com/@x/y'') = Inr (js ''https:'')"
    by (simp add: js_def scheme_of_def)
  have 6: "trim (js ''http://example.com/blog/1'') \<noteq> []
      \<and> (scheme_of (js ''http://example.com/blog/1'') = Inr (js ''http:'')
          \<or> scheme_of (js ''http://example.com/blog/1'') = Inr (js ''https:''))
      \<and> (\<exists>pattern \<in> set blogPatterns. \<exists>xs ys. js ''http://example.com/blog/1'' = xs @ pattern @ ys)"
  proof -
    have "js ''http://example.com/blog/1'' = js ''http://example.com'' @ js ''/blog/'' @ js ''1''"
      by (simp add: js_def)
    moreover have "js ''/blog/'' \<in> set blogPatterns" by (simp add: blogPatterns_def)
    ultimately have "\<exists>pattern \<in> set blogPatterns. \<exists>xs ys. js ''http://example.com/blog/1'' = xs @ pattern @ ys"
      by blast
    moreover have "trim (js ''http://example.com/blog/1'') \<noteq> []"
      by (simp add: trim_def js_def is_space_def)
    moreover have "scheme_of (js ''http://example.com/blog/1'') = Inr (js ''http:'')"
      by (simp add: js_def scheme_of_def)
    ultimately show ?thesis by blast
  qed
  have c1: "map_option err_type (validateUrl (js ''t0'') scheme_of (js ''  '')) = Some VALIDATION"
    using validateUrl_classification [of "js ''  ''" "js ''t0''" scheme_of, THEN conjunct1] 1
    by (rule mp)
  have c2: "map_option err_type (validateUrl (js ''t0'') scheme_of (js ''not a url'')) = Some INVALID_URL"
    using validateUrl_classification
      [of "js ''not a url''" "js ''t0''" scheme_of, THEN conjunct2, THEN conjunct1] 2
    by (rule mp)
  have c3: "map_option err_type (validateUrl (js ''t0'') scheme_of (js ''ftp://medium.com/a'')) = Some INVALID_URL"
    using validateUrl_classification
      [of "js ''ftp://medium.com/a''" "js ''t0''" scheme_of,
       THEN conjunct2, THEN conjunct2, THEN conjunct1] 3
    by (rule mp)
  have c4: "map_option err_type (validateUrl (js ''t0'') scheme_of (js ''https://example.com/'')) = Some VALIDATION"
    using validateUrl_classification
      [of _ "js ''t0''" scheme_of,
       THEN conjunct2, THEN conjunct2, THEN conjunct2, THEN conjunct2, THEN conjunct2,
       THEN conjunct1] 4
    by (rule mp)
  have c5: "validateUrl (js ''t0'') scheme_of (js ''https://medium.com/@x/y'') = None"
    using validateUrl_classification
      [of _ "js ''t0''" scheme_of,
       THEN conjunct2, THEN conjunct2, THEN conjunct2, THEN conjunct2, THEN conjunct2,
       THEN conjunct2] 5
    by (rule mp)
  have c6: "validateUrl (js ''t0'') scheme_of (js ''http://example.com/blog/1'') = None"
    using validateUrl_classification
      [of "js ''http://example.com/blog/1''" "js ''t0''" scheme_of,
       THEN conjunct2, THEN conjunct2, THEN conjunct2, THEN conjunct2, THEN conjunct1] 6
    by (rule mp)
  from c1 c2 c3 c4 c5 c6 show ?thesis by (intro conjI)
qed

section \<open>Properties of the retry wrapper\<close>

lemma attempt_resolved:
  "fn w = (Inr v, w') \<Longrightarrow> attempt fn maxRetries delay k w = ([], Inr v, w')"
  by (subst attempt.simps) simp

lemma attempt_exhausted:
  "fn w = (Inl e, w') \<Longrightarrow> maxRetries \<le> k \<Longrightarrow> attempt fn maxRetries delay k w = ([], Inl e, w')"
  by (subst attempt.simps) simp

lemma attempt_retry:
  "fn w = (Inl e, w') \<Longrightarrow> k < maxRetries \<Longrightarrow>
   attempt fn maxRetries delay k w =
     (delay * 2 ^ k # fst (attempt fn maxRetries delay (Suc k) w'),
      snd (attempt fn maxRetries delay (Suc k) w'))"
  by (subst attempt.simps) (simp add: split_beta)

lemma attempt_all_rejected:
  "(\<forall>w. \<exists>e w'. fn w = (Inl e, w')) \<Longrightarrow>
   fst (attempt fn maxRetries delay k w) = map (\<lambda>i. delay * 2 ^ i) [k..<maxRetries]
       \<and> (\<exists>e. fst (snd (attempt fn maxRetries delay k w)) = Inl e)"
proof (induction fn maxRetries delay k w rule: attempt.induct)
  case (1 fn maxRetries delay k w)
  from "1.prems" obtain e w' where f: "fn w = (Inl e, w')" by blast
  show ?case
  proof (cases "maxRetries \<le> k")
    case True
    with f show ?thesis by (simp add: attempt_exhausted)
  next
    case False
    then have lt: "k < maxRetries" by simp
    have ih: "fst (attempt fn maxRetries delay (k + 1) w') = map (\<lambda>i. delay * 2 ^ i) [k + 1..<maxRetries]
       \<and> (\<exists>e. fst (snd (attempt fn maxRetries delay (k + 1) w')) = Inl e)"
      using "1.IH" [OF f [symmetric] refl False refl "1.prems"] .
    have "[k..<maxRetries] = k # [Suc k..<maxRetries]" using lt by (rule upt_conv_Cons)
    with ih show ?thesis by (simp add: attempt_retry [where fn = fn and w = w, OF f lt])
  qed
qed

lemma attempt_rejection_origin:
  "attempt fn maxRetries delay k w = (ds, Inl e, w') \<Longrightarrow> \<exists>w1. fn w1 = (Inl e, w')"
proof (induction fn maxRetries delay k w arbitrary: ds rule: attempt.induct)
  case (1 fn maxRetries delay k w)
  obtain r w2 where f: "fn w = (r, w2)" by (cases "fn w")
  show ?case
  proof (cases r)
    case (Inr v)
    with f "1.prems" show ?thesis by (simp add: attempt_resolved)
  next
    case (Inl e0)
    with f have f': "fn w = (Inl e0, w2)" by simp
    show ?thesis
    proof (cases "maxRetries \<le> k")
      case True
      with f' "1.prems" have "e0 = e" and "w2 = w'" by (simp_all add: attempt_exhausted)
      with f' show ?thesis by blast
    next
      case False
      then have lt: "k < maxRetries" by simp
      obtain ds2 r2 where a: "attempt fn maxRetries delay (k + 1) w2 = (ds2, r2)"
        by (cases "attempt fn maxRetries delay (k + 1) w2")
      with "1.prems" have "r2 = (Inl e, w')"
        by (simp add: attempt_retry [where fn = fn and w = w, OF f' lt])
      with a have "attempt fn maxRetries delay (k + 1) w2 = (ds2, Inl e, w')" by simp
      then show ?thesis
        by (rule "1.IH" [OF f' [symmetric] refl False refl])
    qed
  qed
qed

lemma attempt_relabel:
  "attempt (\<lambda>w. case fn w of (r, w') \<Rightarrow> (map_sum g (\<lambda>v. v) r, w')) maxRetries delay k w
     = (case attempt fn maxRetries delay k w of (ds, r, w') \<Rightarrow> (ds, map_sum g (\<lambda>v. v) r, w'))"
proof (induction fn maxRetries delay k w rule: attempt.induct)
  case (1 fn maxRetries delay k w)
  let ?fn' = "\<lambda>w. case fn w of (r, w') \<Rightarrow> (map_sum g (\<lambda>v. v) r, w')"
  obtain r w2 where f: "fn w = (r, w2)" by (cases "fn w")
  show ?case
  proof (cases r)
    case (Inr v)
    with f have "fn w = (Inr v, w2)" and "?fn' w = (Inr v, w2)" by simp_all
    then show ?thesis by (simp add: attempt_resolved)
  next
    case (Inl e)
    with f have f1: "fn w = (Inl e, w2)" and f2: "?fn' w = (Inl (g e), w2)" by simp_all
    show ?thesis
    proof (cases "maxRetries \<le> k")
      case True
      with f1 f2 show ?thesis by (simp add: attempt_exhausted)
    next
      case False
      then have lt: "k < maxRetries" by simp
      have ih: "attempt ?fn' maxRetries delay (Suc k) w2
          = (case attempt fn maxRetries delay (Suc k) w2 of (ds, r, w') \<Rightarrow> (ds, map_sum g (\<lambda>v. v) r, w'))"
        using "1.IH" [OF f1 [symmetric] refl False refl] by (simp only: Suc_eq_plus1)
      show ?thesis
        unfolding attempt_retry [where fn = fn and w = w, OF f1 lt]
          attempt_retry [where fn = ?fn' and w = w, OF f2 lt] ih
        by (simp add: split_beta)
    qed
  qed
qed

text \<open>
  Claim C3, as amended. For a call that is rejected on its first two invocations and
  resolved on its third, \<open>retryWithBackoff\<close> with 3 retries and a base delay of 1000 ms
  resolves with the result of the third invocation; the first retry is scheduled after
  \<open>1000 * 2^0 = 1000\<close> ms and the third attempt \<open>1000 * 2^1 = 2000\<close> ms after the second
  failure (not 4000 ms: the exponent is the index of the attempt that failed, from 0).
\<close>

theorem retry_twice_failed:
  assumes "fn w0 = (Inl e1, w1)" and "fn w1 = (Inl e2, w2)" and "fn w2 = (Inr v, w3)"
  shows "retryWithBackoff fn 3 1000 w0 = ([1000 * 2 ^ 0, 1000 * 2 ^ 1], Inr v, w3)"
  using assms by (simp add: retryWithBackoff_def attempt_retry attempt_resolved)

theorem retry_twice_failed_witness:
  "retryWithBackoff flaky 3 1000 0 = ([1000, 2000], Inr 2, 3)"
  using retry_twice_failed [where fn = flaky and ?w0.0 = 0 and ?e1.0 = 0 and ?w1.0 = 1 and ?e2.0 = 1 and ?w2.0 = 2 and v = 2 and ?w3.0 = 3] by (simp add: flaky_def)

theorem retry_third_delay_counterexample:
  "fst (flaky 0) = Inl 0 \<and> fst (flaky 1) = Inl 1 \<and> fst (flaky 2) = Inr 2
   \<and> fst (retryWithBackoff flaky 3 1000 0) ! 1 \<noteq> 1000 * 2 ^ 2"
  by (simp add: flaky_def retryWithBackoff_def attempt_retry attempt_resolved)

text \<open>
  Claim C6. For a call that is rejected on every invocation, \<open>retryWithBackoff\<close> with 3
  retries and a base delay of 1000 ms invokes it four times, schedules the retries after
  \<open>1000 * 2^0\<close>, \<open>1000 * 2^1\<close> and \<open>1000 * 2^2\<close> ms, and then rejects with the failure of the
  fourth invocation.
\<close>

theorem retry_exhausted:
  assumes "\<And>w. \<exists>e w'. fn w = (Inl e, w')"
  shows "\<exists>e1 w1 e2 w2 e3 w3 e4 w4.
           fn w0 = (Inl e1, w1) \<and> fn w1 = (Inl e2, w2) \<and> fn w2 = (Inl e3, w3) \<and> fn w3 = (Inl e4, w4)
         \<and> retryWithBackoff fn 3 1000 w0
             = ([1000 * 2 ^ 0, 1000 * 2 ^ 1, 1000 * 2 ^ 2], Inl e4, w4)"
proof -
  obtain e1 w1 where f1: "fn w0 = (Inl e1, w1)" using assms by blast
  obtain e2 w2 where f2: "fn w1 = (Inl e2, w2)" using assms by blast
  obtain e3 w3 where f3: "fn w2 = (Inl e3, w3)" using assms by blast
  obtain e4 w4 where f4: "fn w3 = (Inl e4, w4)" using assms by blast
  have "retryWithBackoff fn 3 1000 w0 = ([1000 * 2 ^ 0, 1000 * 2 ^ 1, 1000 * 2 ^ 2], Inl e4, w4)"
    using f1 f2 f3 f4
    by (simp add: retryWithBackoff_def attempt_retry attempt_exhausted numeral_3_eq_3)
  with f1 f2 f3 f4 show ?thesis by blast
qed

theorem retry_exhausted_witness:
  "retryWithBackoff failing 3 1000 0 = ([1000, 2000, 4000], Inl 3, 4)"
proof -
  have "\<And>w. \<exists>e w'. failing w = (Inl e, w')" by (simp add: failing_def)
  then have "\<exists>e1 w1 e2 w2 e3 w3 e4 w4.
           failing 0 = (Inl e1, w1) \<and> failing w1 = (Inl e2, w2) \<and> failing w2 = (Inl e3, w3)
         \<and> failing w3 = (Inl e4, w4)
         \<and> retryWithBackoff failing 3 1000 0
             = ([1000 * 2 ^ 0, 1000 * 2 ^ 1, 1000 * 2 ^ 2], Inl e4, w4)"
    by (rule retry_exhausted [where fn = failing and ?w0.0 = 0])
  then show ?thesis by (auto simp: failing_def)
qed

section \<open>Properties of the error classification\<close>

lemma ERROR_TYPES_truthy: "ERROR_TYPES t \<noteq> []"
  by (cases t) (simp_all add: js_def)

text \<open>
  Claim C5. The \<open>catch\<close> block of the summarize handler gives each failure one structured
  error: \<open>timeout\<close> for an \<open>AbortError\<close>; otherwise a structured error unchanged; otherwise
  \<open>network\<close> for a \<open>TypeError\<close> whose message contains \<open>fetch\<close>; otherwise \<open>unknown\<close>.
\<close>

theorem handleSummarize_catch_precedence:
  "(exn_name ex = js ''AbortError'' \<longrightarrow>
      err_type (handleSummarize_catch now (Exception ex)) = TIMEOUT)
 \<and> handleSummarize_catch now (Structured e) = e
 \<and> (exn_name ex \<noteq> js ''AbortError'' \<and> exn_name ex = js ''TypeError''
      \<and> (\<exists>xs ys. exn_message ex = xs @ js ''fetch'' @ ys) \<longrightarrow>
      err_type (handleSummarize_catch now (Exception ex)) = NETWORK)
 \<and> (exn_name ex \<noteq> js ''AbortError''
      \<and> \<not> (exn_name ex = js ''TypeError'' \<and> (\<exists>xs ys. exn_message ex = xs @ js ''fetch'' @ ys)) \<longrightarrow>
      err_type (handleSummarize_catch now (Exception ex)) = UNKNOWN)"
  by (simp add: ERROR_TYPES_truthy createError_def includes_js_iff)

theorem handleSummarize_catch_precedence_witness:
  "err_type (handleSummarize_catch (js ''t0'')
      (Exception (Exn (js ''AbortError'') (js ''The user aborted a request.'')))) = TIMEOUT
 \<and> err_type (handleSummarize_catch (js ''t0'')
      (Exception (Exn (js ''TypeError'') (js ''Failed to fetch'')))) = NETWORK
 \<and> err_type (handleSummarize_catch (js ''t0'')
      (Exception (Exn (js ''SyntaxError'') (js ''bad fetch body'')))) = UNKNOWN"
proof -
  let ?abort = "Exn (js ''AbortError'') (js ''The user aborted a request.'')"
  let ?net = "Exn (js ''TypeError'') (js ''Failed to fetch'')"
  let ?syn = "Exn (js ''SyntaxError'') (js ''bad fetch body'')"
  have 1: "exn_name ?abort = js ''AbortError''" by simp
  have "js ''Failed to fetch'' = js ''Failed to '' @ js ''fetch'' @ []" by (simp add: js_def)
  then have m: "\<exists>xs ys. exn_message ?net = xs @ js ''fetch'' @ ys"
    unfolding exn.sel by blast
  have "js ''TypeError'' \<noteq> js ''AbortError''" by (simp add: js_def)
  with m have 2: "exn_name ?net \<noteq> js ''AbortError'' \<and> exn_name ?net = js ''TypeError''
      \<and> (\<exists>xs ys. exn_message ?net = xs @ js ''fetch'' @ ys)"
    by simp
  have "js ''SyntaxError'' \<noteq> js ''AbortError''" and "js ''SyntaxError'' \<noteq> js ''TypeError''"
    by (simp_all add: js_def)
  then have 3: "exn_name ?syn \<noteq> js ''AbortError''
      \<and> \<not> (exn_name ?syn = js ''TypeError'' \<and> (\<exists>xs ys. exn_message ?syn = xs @ js ''fetch'' @ ys))"
    by simp
  have c1: "err_type (handleSummarize_catch (js ''t0'') (Exception ?abort)) = TIMEOUT"
    using handleSummarize_catch_precedence [of ?abort "js ''t0''", THEN conjunct1] 1
    by (rule mp)
  have c2: "err_type (handleSummarize_catch (js ''t0'') (Exception ?net)) = NETWORK"
    using handleSummarize_catch_precedence
      [of ?net "js ''t0''", THEN conjunct2, THEN conjunct2, THEN conjunct1] 2
    by (rule mp)
  have c3: "err_type (handleSummarize_catch (js ''t0'') (Exception ?syn)) = UNKNOWN"
    using handleSummarize_catch_precedence
      [of ?syn "js ''t0''", THEN conjunct2, THEN conjunct2, THEN conjunct2] 3
    by (rule mp)
  from c1 c2 c3 show ?thesis by (intro conjI)
qed

section \<open>Recoverable errors\<close>

lemma handleApiError_recoverable: "recoverable (handleApiError now response data)"
  by (simp add: handleApiError_def createError_def Let_def)

lemma apiCall_recoverable:
  "apiCall now fetch u w = (Inl (Structured e), w') \<Longrightarrow> recoverable e"
  by (auto simp: apiCall_def createError_def handleApiError_recoverable
           split: prod.splits sum.splits if_splits)

lemma catch_recoverable:
  "(\<And>e. err = Structured e \<Longrightarrow> recoverable e) \<Longrightarrow> recoverable (handleSummarize_catch now err)"
  by (cases err) (simp_all add: createError_def)

lemma validateUrl_recoverable: "validateUrl now urlParse u = Some e \<Longrightarrow> recoverable e"
  by (auto simp: validateUrl_def createError_def split: if_splits sum.splits)

lemma handleSummarize_recoverable:
  assumes "error (fst (handleSummarize now urlParse fetch s w)) = Some e"
  shows "recoverable e"
proof (cases "isOnline s")
  case False
  with assms show ?thesis by (auto simp: handleSummarize_def createError_def)
next
  case True
  show ?thesis
  proof (cases "validateUrl (now w) urlParse (url s)")
    case (Some ve)
    with True assms have "ve = e" by (simp add: handleSummarize_def)
    with Some show ?thesis by (simp add: validateUrl_recoverable)
  next
    case None
    obtain ds r w' where r: "retryWithBackoff (apiCall now fetch (url s)) 3 1000 w = (ds, r, w')"
      by (cases "retryWithBackoff (apiCall now fetch (url s)) 3 1000 w") auto
    show ?thesis
    proof (cases r)
      case (Inr v)
      with True None r assms show ?thesis by (simp add: handleSummarize_def)
    next
      case (Inl err)
      with True None r assms have e: "e = handleSummarize_catch (now w') err"
        by (simp add: handleSummarize_def)
      from r Inl have "attempt (apiCall now fetch (url s)) 3 1000 0 w = (ds, Inl err, w')"
        by (simp add: retryWithBackoff_def)
      then have "\<exists>w1. apiCall now fetch (url s) w1 = (Inl err, w')"
        by (rule attempt_rejection_origin)
      then obtain w1 where "apiCall now fetch (url s) w1 = (Inl err, w')" ..
      then have "\<And>e'. err = Structured e' \<Longrightarrow> recoverable e'"
        by (auto dest: apiCall_recoverable)
      then show ?thesis unfolding e by (rule catch_recoverable)
    qed
  qed
qed

lemma medium_valid: "validateUrl t scheme_of (js ''https://medium.com/@x/y'') = None"
  using trim_medium blog_medium by (simp add: validateUrl_def) (simp add: scheme_of_def js_def)

text \<open>
  Claim C8. Every structured error made by the validator, by the mapping of API errors, by
  \<open>apiCall\<close> and by the \<open>catch\<close> block has \<open>recoverable = true\<close>, so whatever error the
  summarize handler leaves in the state is recoverable and "Try Again" runs the handler
  again; only the error of a failed clipboard copy has \<open>recoverable = false\<close>.
\<close>

theorem errors_recoverable:
  "(\<forall>e. validateUrl t urlParse u = Some e \<longrightarrow> recoverable e)
 \<and> recoverable (handleApiError t response data)
 \<and> (\<forall>e w'. apiCall now fetch u w = (Inl (Structured e), w') \<longrightarrow> recoverable e)
 \<and> (\<forall>ex. recoverable (handleSummarize_catch t (Exception ex)))
 \<and> (\<forall>e. error (fst (handleSummarize now urlParse fetch s w)) = Some e \<longrightarrow>
        recoverable e
      \<and> retryLastAction now urlParse fetch (fst (handleSummarize now urlParse fetch s w)) w2
          = handleSummarize now urlParse fetch (fst (handleSummarize now urlParse fetch s w)) w2)
 \<and> (\<exists>e. error (copyToClipboard t (Inl ex) s) = Some e \<and> \<not> recoverable e)"
proof (intro conjI allI impI)
  fix e assume "validateUrl t urlParse u = Some e"
  then show "recoverable e" by (rule validateUrl_recoverable)
next
  show "recoverable (handleApiError t response data)" by (rule handleApiError_recoverable)
next
  fix e w' assume "apiCall now fetch u w = (Inl (Structured e), w')"
  then show "recoverable e" by (rule apiCall_recoverable)
next
  fix ex show "recoverable (handleSummarize_catch t (Exception ex))"
    by (rule catch_recoverable) simp
next
  fix e assume a: "error (fst (handleSummarize now urlParse fetch s w)) = Some e"
  then show r: "recoverable e" by (rule handleSummarize_recoverable)
  with a show "retryLastAction now urlParse fetch (fst (handleSummarize now urlParse fetch s w)) w2
          = handleSummarize now urlParse fetch (fst (handleSummarize now urlParse fetch s w)) w2"
    by (simp add: retryLastAction_def)
next
  show "\<exists>e. error (copyToClipboard t (Inl ex) s) = Some e \<and> \<not> recoverable e"
    by (simp add: copyToClipboard_def createError_def)
qed

theorem errors_recoverable_witness:
  "(\<exists>e. validateUrl (js ''t0'') scheme_of (js ''  '') = Some e \<and> recoverable e)
 \<and> (\<exists>e w'. apiCall (\<lambda>w. js ''t0'') (answering 429) (js ''https://medium.com/@x/y'') 0
              = (Inl (Structured e), w') \<and> recoverable e)
 \<and> (\<exists>e. error (fst (handleSummarize (\<lambda>w. js ''t0'') scheme_of (answering 429)
                       ((initial_state True)\<lparr>url := js ''https://medium.com/@x/y''\<rparr>) 0)) = Some e
        \<and> recoverable e)"
proof -
  let ?u = "js ''https://medium.com/@x/y''"
  let ?now = "\<lambda>w :: nat. js ''t0''"
  let ?s = "(initial_state True)\<lparr>url := ?u\<rparr>"
  note inst = errors_recoverable
    [where t = "js ''t0''" and urlParse = scheme_of and u = ?u and now = ?now
       and fetch = "answering 429" and w = 0 and s = ?s]
  have "trim (js ''  '') = []" by (simp add: trim_def js_def is_space_def)
  then obtain e1 where v: "validateUrl (js ''t0'') scheme_of (js ''  '') = Some e1"
    by (simp add: validateUrl_def)
  have "recoverable e1"
    using errors_recoverable
      [where t = "js ''t0''" and urlParse = scheme_of and u = "js ''  ''", THEN conjunct1,
       THEN spec, THEN mp, OF v] .
  with v have c1: "\<exists>e. validateUrl (js ''t0'') scheme_of (js ''  '') = Some e \<and> recoverable e"
    by blast
  obtain e2 w2 where a: "apiCall ?now (answering 429) ?u 0 = (Inl (Structured e2), w2)"
    by (simp add: apiCall_def answering_def ok_def)
  have "recoverable e2"
    using inst [THEN conjunct2, THEN conjunct2, THEN conjunct1, THEN spec, THEN spec, THEN mp, OF a] .
  with a have c2: "\<exists>e w'. apiCall ?now (answering 429) ?u 0 = (Inl (Structured e), w') \<and> recoverable e"
    by blast
  have on: "isOnline ?s" by (simp add: initial_state_def)
  have "url ?s = ?u" by simp
  obtain ds r w' where r: "retryWithBackoff (apiCall ?now (answering 429) ?u) 3 1000 0 = (ds, r, w')"
    by (cases "retryWithBackoff (apiCall ?now (answering 429) ?u) 3 1000 0") auto
  have "\<forall>w. \<exists>e w'. apiCall ?now (answering 429) ?u w = (Inl e, w')"
    by (simp add: apiCall_def answering_def ok_def)
  from attempt_all_rejected [OF this, of 3 1000 0 0] r obtain err where "r = Inl err"
    by (auto simp: retryWithBackoff_def)
  with r on have "\<exists>e3. error (fst (handleSummarize ?now scheme_of (answering 429) ?s 0)) = Some e3"
    by (simp add: handleSummarize_def medium_valid)
  then obtain e3 where h: "error (fst (handleSummarize ?now scheme_of (answering 429) ?s 0)) = Some e3" ..
  have "recoverable e3"
    using inst [THEN conjunct2, THEN conjunct2, THEN conjunct2, THEN conjunct2, THEN conjunct1,
               THEN spec, THEN mp, OF h]
    by (rule conjunct1)
  with h have c3: "\<exists>e. error (fst (handleSummarize ?now scheme_of (answering 429) ?s 0)) = Some e
        \<and> recoverable e" by blast
  from c1 c2 c3 show ?thesis by (intro conjI)
qed

section \<open>Retries do not look at the failure\<close>

lemma apiCall_not_ok:
  assumes "fetch (trim u) w = (Inr response, w')" and "resp_json response = Inr data"
    and "\<not> ok response"
  shows "apiCall now fetch u w = (Inl (Structured (handleApiError (now w') response data)), w')"
  using assms by (simp add: apiCall_def)

lemma apiCall_transport:
  assumes "fetch (trim u) w = (Inl ex, w')"
  shows "apiCall now fetch u w = (Inl (Exception ex), w')"
  using assms by (simp add: apiCall_def)

lemma upt_0_3: "[0..<3] = [0, 1, 2]"
  by (simp add: upt_rec numeral_3_eq_3)

lemma retry_schedule_apiCall:
  assumes "\<forall>w. \<exists>e w'. apiCall now fetch u w = (Inl e, w') \<and> P e"
  shows "fst (retryWithBackoff (apiCall now fetch u) 3 1000 w0) = [1000, 2000, 4000]
       \<and> (\<exists>e. fst (snd (retryWithBackoff (apiCall now fetch u) 3 1000 w0)) = Inl e \<and> P e)"
proof -
  let ?r = "attempt (apiCall now fetch u) 3 1000 0 w0"
  from assms have all: "\<forall>w. \<exists>e w'. apiCall now fetch u w = (Inl e, w')" by blast
  have d: "fst ?r = map (\<lambda>i. 1000 * 2 ^ i) [0..<3]" and "\<exists>e. fst (snd ?r) = Inl e"
    using attempt_all_rejected [OF all, of 3 1000 0 w0] by simp_all
  then obtain e where e: "fst (snd ?r) = Inl e" by blast
  then have "?r = (fst ?r, Inl e, snd (snd ?r))" by (metis prod.collapse)
  then have "\<exists>w1. apiCall now fetch u w1 = (Inl e, snd (snd ?r))"
    by (rule attempt_rejection_origin)
  then obtain w1 where "apiCall now fetch u w1 = (Inl e, snd (snd ?r))" ..
  moreover from assms obtain e' w' where "apiCall now fetch u w1 = (Inl e', w')" and "P e'"
    by blast
  ultimately have "P e" by simp
  with d e show ?thesis by (simp add: retryWithBackoff_def upt_0_3)
qed

text \<open>
  Claim C10. Rewriting the failures of a call by any function \<open>g\<close> changes neither the
  delays scheduled by \<open>retryWithBackoff\<close> nor the number of invocations, only the value
  it rejects with. So a service that always answers 429 (whatever its \<open>retryAfter\<close>), one
  that always answers 400 and a network that always fails are all retried after 1000, 2000
  and 4000 ms, and the wrapper then rejects with the rate-limit error, the validation
  error or the transport exception.
\<close>

theorem retry_ignores_failure_value:
  "retryWithBackoff (\<lambda>w. case fn w of (r, w') \<Rightarrow> (map_sum g (\<lambda>v. v) r, w')) maxRetries delay w
     = (case retryWithBackoff fn maxRetries delay w of (ds, r, w') \<Rightarrow> (ds, map_sum g (\<lambda>v. v) r, w'))
 \<and> ((\<forall>w. \<exists>data w'. fetch (trim u) w = (Inr \<lparr>resp_status = 429, resp_json = Inr data\<rparr>, w')) \<longrightarrow>
      fst (retryWithBackoff (apiCall now fetch u) 3 1000 w0) = [1000, 2000, 4000]
      \<and> (\<exists>e. fst (snd (retryWithBackoff (apiCall now fetch u) 3 1000 w0)) = Inl (Structured e)
              \<and> err_type e = RATE_LIMIT \<and> recoverable e))
 \<and> ((\<forall>w. \<exists>data w'. fetch (trim u) w = (Inr \<lparr>resp_status = 400, resp_json = Inr data\<rparr>, w')) \<longrightarrow>
      fst (retryWithBackoff (apiCall now fetch u) 3 1000 w0) = [1000, 2000, 4000]
      \<and> (\<exists>e. fst (snd (retryWithBackoff (apiCall now fetch u) 3 1000 w0)) = Inl (Structured e)
              \<and> err_type e = VALIDATION \<and> recoverable e))
 \<and> ((\<forall>w. \<exists>ex w'. fetch (trim u) w = (Inl ex, w')) \<longrightarrow>
      fst (retryWithBackoff (apiCall now fetch u) 3 1000 w0) = [1000, 2000, 4000]
      \<and> (\<exists>ex. fst (snd (retryWithBackoff (apiCall now fetch u) 3 1000 w0)) = Inl (Exception ex)))"
proof (intro conjI impI)
  show "retryWithBackoff (\<lambda>w. case fn w of (r, w') \<Rightarrow> (map_sum g (\<lambda>v. v) r, w')) maxRetries delay w
     = (case retryWithBackoff fn maxRetries delay w of (ds, r, w') \<Rightarrow> (ds, map_sum g (\<lambda>v. v) r, w'))"
    unfolding retryWithBackoff_def by (rule attempt_relabel)
next
  assume a: "\<forall>w. \<exists>data w'. fetch (trim u) w = (Inr \<lparr>resp_status = 429, resp_json = Inr data\<rparr>, w')"
  have "\<forall>w. \<exists>e w'. apiCall now fetch u w = (Inl e, w')
          \<and> (\<exists>se. e = Structured se \<and> err_type se = RATE_LIMIT \<and> recoverable se)"
  proof
    fix w
    from a obtain data w' where "fetch (trim u) w = (Inr \<lparr>resp_status = 429, resp_json = Inr data\<rparr>, w')"
      by blast
    then have "apiCall now fetch u w
        = (Inl (Structured (handleApiError (now w') \<lparr>resp_status = 429, resp_json = Inr data\<rparr> data)), w')"
      by (rule apiCall_not_ok) (simp_all add: ok_def)
    moreover have "err_type (handleApiError (now w') \<lparr>resp_status = 429, resp_json = Inr data\<rparr> data)
        = RATE_LIMIT"
      by (simp add: handleApiError_def createError_def)
    ultimately show "\<exists>e w'. apiCall now fetch u w = (Inl e, w')
          \<and> (\<exists>se. e = Structured se \<and> err_type se = RATE_LIMIT \<and> recoverable se)"
      using handleApiError_recoverable by blast
  qed
  from retry_schedule_apiCall [OF this, of w0]
  show "fst (retryWithBackoff (apiCall now fetch u) 3 1000 w0) = [1000, 2000, 4000]"
    and "\<exists>e. fst (snd (retryWithBackoff (apiCall now fetch u) 3 1000 w0)) = Inl (Structured e)
              \<and> err_type e = RATE_LIMIT \<and> recoverable e"
    by auto
next
  assume a: "\<forall>w. \<exists>data w'. fetch (trim u) w = (Inr \<lparr>resp_status = 400, resp_json = Inr data\<rparr>, w')"
  have "\<forall>w. \<exists>e w'. apiCall now fetch u w = (Inl e, w')
          \<and> (\<exists>se. e = Structured se \<and> err_type se = VALIDATION \<and> recoverable se)"
  proof
    fix w
    from a obtain data w' where "fetch (trim u) w = (Inr \<lparr>resp_status = 400, resp_json = Inr data\<rparr>, w')"
      by blast
    then have "apiCall now fetch u w
        = (Inl (Structured (handleApiError (now w') \<lparr>resp_status = 400, resp_json = Inr data\<rparr> data)), w')"
      by (rule apiCall_not_ok) (simp_all add: ok_def)
    moreover have "err_type (handleApiError (now w') \<lparr>resp_status = 400, resp_json = Inr data\<rparr> data)
        = VALIDATION"
      by (simp add: handleApiError_def createError_def)
    ultimately show "\<exists>e w'. apiCall now fetch u w = (Inl e, w')
          \<and> (\<exists>se. e = Structured se \<and> err_type se = VALIDATION \<and> recoverable se)"
      using handleApiError_recoverable by blast
  qed
  from retry_schedule_apiCall [OF this, of w0]
  show "fst (retryWithBackoff (apiCall now fetch u) 3 1000 w0) = [1000, 2000, 4000]"
    and "\<exists>e. fst (snd (retryWithBackoff (apiCall now fetch u) 3 1000 w0)) = Inl (Structured e)
              \<and> err_type e = VALIDATION \<and> recoverable e"
    by auto
next
  assume a: "\<forall>w. \<exists>ex w'. fetch (trim u) w = (Inl ex, w')"
  have "\<forall>w. \<exists>e w'. apiCall now fetch u w = (Inl e, w') \<and> (\<exists>ex. e = Exception ex)"
  proof
    fix w
    from a obtain ex w' where "fetch (trim u) w = (Inl ex, w')" by blast
    then have "apiCall now fetch u w = (Inl (Exception ex), w')" by (rule apiCall_transport)
    then show "\<exists>e w'. apiCall now fetch u w = (Inl e, w') \<and> (\<exists>ex. e = Exception ex)" by blast
  qed
  from retry_schedule_apiCall [OF this, of w0]
  show "fst (retryWithBackoff (apiCall now fetch u) 3 1000 w0) = [1000, 2000, 4000]"
    and "\<exists>ex. fst (snd (retryWithBackoff (apiCall now fetch u) 3 1000 w0)) = Inl (Exception ex)"
    by auto
qed

theorem retry_ignores_failure_value_witness:
  "fst (retryWithBackoff (apiCall (\<lambda>w. js ''t0'') (answering 429) (js ''https://medium.com/@x/y'')) 3 1000 0)
     = [1000, 2000, 4000]
 \<and> fst (retryWithBackoff (apiCall (\<lambda>w. js ''t0'') (answering 400) (js ''https://medium.com/@x/y'')) 3 1000 0)
     = [1000, 2000, 4000]
 \<and> fst (retryWithBackoff (apiCall (\<lambda>w. js ''t0'') unreachable (js ''https://medium.com/@x/y'')) 3 1000 0)
     = [1000, 2000, 4000]"
proof -
  let ?u = "js ''https://medium.com/@x/y''"
  let ?now = "\<lambda>w :: nat. js ''t0''"
  have 1: "\<forall>w. \<exists>data w'. answering 429 (trim ?u) w = (Inr \<lparr>resp_status = 429, resp_json = Inr data\<rparr>, w')"
    by (simp add: answering_def)
  have 2: "\<forall>w. \<exists>data w'. answering 400 (trim ?u) w = (Inr \<lparr>resp_status = 400, resp_json = Inr data\<rparr>, w')"
    by (simp add: answering_def)
  have 3: "\<forall>w. \<exists>ex w'. unreachable (trim ?u) w = (Inl ex, w')"
    by (simp add: unreachable_def)
  have c1: "fst (retryWithBackoff (apiCall ?now (answering 429) ?u) 3 1000 0) = [1000, 2000, 4000]"
    using retry_ignores_failure_value
      [where fetch = "answering 429" and u = ?u and now = ?now and ?w0.0 = 0,
       THEN conjunct2, THEN conjunct1, THEN mp, OF 1]
    by (rule conjunct1)
  have c2: "fst (retryWithBackoff (apiCall ?now (answering 400) ?u) 3 1000 0) = [1000, 2000, 4000]"
    using retry_ignores_failure_value
      [where fetch = "answering 400" and u = ?u and now = ?now and ?w0.0 = 0,
       THEN conjunct2, THEN conjunct2, THEN conjunct1, THEN mp, OF 2]
    by (rule conjunct1)
  have c3: "fst (retryWithBackoff (apiCall ?now unreachable ?u) 3 1000 0) = [1000, 2000, 4000]"
    using retry_ignores_failure_value
      [where fetch = unreachable and u = ?u and now = ?now and ?w0.0 = 0,
       THEN conjunct2, THEN conjunct2, THEN conjunct2, THEN mp, OF 3]
    by (rule conjunct1)
  from c1 c2 c3 show ?thesis by (intro conjI)
qed

section \<open>Reset\<close>

text \<open>
  Claim C9, as amended. For every prior state, \<open>resetForm\<close> sets \<open>url\<close>, \<open>summary\<close>,
  \<open>error\<close>, \<open>activeTab\<close> and \<open>retryCount\<close> to their initial values and leaves \<open>loading\<close>,
  \<open>copied\<close> and \<open>isOnline\<close> as they were; it is idempotent, and constant on the cells it
  sets, but not on the whole state.
\<close>

theorem resetForm_cells:
  "url (resetForm s) = [] \<and> summary (resetForm s) = None \<and> error (resetForm s) = None
 \<and> activeTab (resetForm s) = js ''english'' \<and> retryCount (resetForm s) = 0
 \<and> loading (resetForm s) = loading s \<and> copied (resetForm s) = copied s
 \<and> isOnline (resetForm s) = isOnline s
 \<and> resetForm s = (initial_state (isOnline s))\<lparr>loading := loading s, copied := copied s\<rparr>
 \<and> resetForm (resetForm s) = resetForm s"
  by (simp add: resetForm_def initial_state_def)

theorem resetForm_not_constant_counterexample:
  "resetForm ((initial_state True)\<lparr>url := js ''https://medium.com/@x/y'', loading := True\<rparr>)
     \<noteq> resetForm (initial_state True)
 \<and> resetForm ((initial_state True)\<lparr>url := js ''https://medium.com/@x/y'', loading := True\<rparr>)
     \<noteq> initial_state True"
  by (simp add: resetForm_def initial_state_def)

end
